theory Spec2Isabelle
  imports Main "HOL-Library.Word"
begin

section \<open>Go values shared by the packages\<close>

text \<open>
  A Go \<open>error\<close> is a value. \<open>errors_New\<close> is an error the package code builds itself
  with \<open>errors.New\<close>; \<open>lib_error\<close> stands for an error handed back by a library
  (archive/zip, encoding/json, io, net/url). An \<open>error option\<close> is Go's \<open>error\<close>
  result, \<open>None\<close> being \<open>nil\<close>.
\<close>

datatype error = errors_New string | lib_error string

text \<open>
  A call that dereferences a nil pointer panics instead of returning.
\<close>

datatype 'a outcome = Panics | Returns 'a

section \<open>xmlenc/encryption.go\<close>

text \<open>
  The types of lines 15-158, field by field. A pointer field is an \<open>option\<close>; an
  embedded struct is the parent of a record. Go's \<open>int\<close> fields are never computed
  with, and are kept as \<open>int\<close>; \<open>uint64\<close> is a 64-bit word; \<open>[]byte\<close> is a list of
  8-bit words. The empty struct \<open>XMLName\<close> of \<open>Manifest\<close> holds nothing.
\<close>

type_synonym URI = string

record Method =
  KeySize :: int
  Algorithm :: URI

record RetrievalMethod =
  URI :: URI
  Type :: string

record CipherReference =
  URI :: URI

record CipherData =
  CipherReference :: CipherReference
  Value :: "8 word list"

record KeyInfo =
  KeyName :: string
  RetrievalMethod :: RetrievalMethod

record encryptedType =
  Method :: Method
  KeyInfo :: "KeyInfo option"
  CipherData :: CipherData
  ID :: string
  Type :: URI
  MimeType :: string
  Encoding :: URI

record Compression =
  Method :: int
  OriginalLength :: "64 word"

record EncryptionProperty =
  Compression :: Compression

record EncryptionProperties =
  Properties :: "EncryptionProperty list"

record Data = encryptedType +
  Properties :: "EncryptionProperties option"

record Manifest =
  Data :: "Data list"

text \<open>\<open>Data{}\<close>, the zero value returned when nothing is found.\<close>

definition Data_zero :: Data where
  "Data_zero =
     \<lparr>encryptedType.Method = \<lparr>KeySize = 0, Algorithm = []\<rparr>,
      KeyInfo = None,
      CipherData = \<lparr>CipherReference = \<lparr>URI = []\<rparr>, Value = []\<rparr>,
      ID = [], Type = [], MimeType = [], Encoding = [],
      Properties = None\<rparr>"

text \<open>
  \<open>DataForFile\<close> (lines 22-36). \<open>url.Parse\<close> and \<open>URL.EscapedPath\<close> belong to net/url
  and are parameters: \<open>url_Parse\<close> gives an error or a parsed URL of some type \<open>'u\<close>,
  \<open>EscapedPath\<close> its escaped path. The loop returns at the first datum whose
  cipher-reference URI is that string.
\<close>

fun DataForFile_loop :: "URI \<Rightarrow> Data list \<Rightarrow> Data \<times> bool" where
  "DataForFile_loop uri [] = (Data_zero, False)"
| "DataForFile_loop uri (datum # rest) =
     (if URI (CipherReference (CipherData datum)) = uri then (datum, True)
      else DataForFile_loop uri rest)"

definition Manifest_DataForFile ::
  "(string \<Rightarrow> error + 'u) \<Rightarrow> ('u \<Rightarrow> string) \<Rightarrow> Manifest \<Rightarrow> string \<Rightarrow> Data \<times> bool" where
  "Manifest_DataForFile url_Parse EscapedPath m path =
     (case url_Parse path of
        Inl err \<Rightarrow> (Data_zero, False)
      | Inr fileUri \<Rightarrow> DataForFile_loop (EscapedPath fileUri) (Data m))"

section \<open>The manifest of package rwpm\<close>

text \<open>
  Modelled from the spec: the type declarations of package \<open>rwpm\<close> (\<open>Publication\<close>,
  \<open>Link\<close>, \<open>Properties\<close>, \<open>Encrypted\<close>) are used by \<open>pack/rwppackage.go\<close> but are not
  among the sources. The spec gives the manifest a title, a reading order and a list of
  ancillary resources, a link an href, a content type and an optional
  encryption-properties record, and that record a scheme, a profile and an algorithm.
  A Go pointer field that may be nil is an \<open>option\<close>.
\<close>

record Encrypted =
  Scheme :: string
  Profile :: string
  Algorithm :: string

record Properties =
  Encrypted :: "Encrypted option"

record Link =
  Href :: string
  Type :: string
  Properties :: "Properties option"

record Publication =
  Title :: string
  ReadingOrder :: "Link list"
  Resources :: "Link list"

text \<open>\<open>new(rwpm.Properties)\<close>: the zero value behind a fresh pointer.\<close>

definition new_Properties :: Properties where
  "new_Properties = \<lparr>Encrypted = None\<rparr>"

section \<open>The archive, as the package code sees archive/zip\<close>

text \<open>
  archive/zip is a library. The model keeps what \<open>pack/rwppackage.go\<close> observes of it:
  the directory of entries in creation order, whether the writer was closed, and the
  calls made on the writer. Whether a call fails is decided by the environment, so each
  operation takes its error result as an argument; a call that fails is recorded and
  adds no entry. The bytes of an entry are a list of chunks of an unspecified type
  \<open>'b\<close>, one chunk per write.
\<close>

record FileHeader =
  Name :: string
  Method :: "16 word"

record 'b zipFile = FileHeader +
  Open :: "error + 'b list"

record 'b zipReader =
  File :: "'b zipFile list"

datatype zipCall = CallCreateHeader string | CallClose

record 'b zipWriter =
  dir :: "(FileHeader \<times> 'b list) list"
  closed :: bool
  calls :: "zipCall list"

definition zip_CreateHeader ::
  "error option \<Rightarrow> 'b zipWriter \<Rightarrow> FileHeader \<Rightarrow> error option \<times> 'b zipWriter" where
  "zip_CreateHeader res zw fh =
     (let zw' = zw\<lparr>calls := calls zw @ [CallCreateHeader (Name fh)]\<rparr>
      in case res of
           Some e \<Rightarrow> (Some e, zw')
         | None \<Rightarrow> (None, zw'\<lparr>dir := dir zw @ [(fh, [])]\<rparr>))"

text \<open>\<open>zip.Writer.Create\<close> is \<open>CreateHeader\<close> with the method Deflate (8).\<close>

definition zip_Create ::
  "error option \<Rightarrow> 'b zipWriter \<Rightarrow> string \<Rightarrow> error option \<times> 'b zipWriter" where
  "zip_Create res zw name = zip_CreateHeader res zw \<lparr>Name = name, Method = 8\<rparr>"

text \<open>A write on the entry created last appends to its bytes.\<close>

definition zip_Write :: "'b zipWriter \<Rightarrow> 'b list \<Rightarrow> 'b zipWriter" where
  "zip_Write zw bs =
     (case rev (dir zw) of
        [] \<Rightarrow> zw
      | (fh, body) # earlier \<Rightarrow> zw\<lparr>dir := rev earlier @ [(fh, body @ bs)]\<rparr>)"

definition zip_Close :: "error option \<Rightarrow> 'b zipWriter \<Rightarrow> error option \<times> 'b zipWriter" where
  "zip_Close res zw =
     (let zw' = zw\<lparr>calls := calls zw @ [CallClose]\<rparr>
      in case res of
           Some e \<Rightarrow> (Some e, zw')
         | None \<Rightarrow> (None, zw'\<lparr>closed := True\<rparr>))"

text \<open>
  Reading back what a writer produced: the entries in directory order, each opening on
  the bytes written to it.
\<close>

definition zip_reopen :: "'b zipWriter \<Rightarrow> 'b zipReader" where
  "zip_reopen zw =
     \<lparr>File = map (\<lambda>(fh, body). \<lparr>Name = Name fh, Method = Method fh, Open = Inr body\<rparr>) (dir zw)\<rparr>"

section \<open>pack/rwppackage.go\<close>

record 'b RWPPReader =
  reader_manifest :: Publication
  zipArchive :: "'b zipReader"

record 'b RWPPWriter =
  manifest :: Publication
  zipWriter :: "'b zipWriter"

record 'b rwpResource =
  isEncrypted :: bool
  contentType :: string
  resource_file :: "'b zipFile option"

definition ManifestLocation :: string where
  "ManifestLocation = ''manifest.json''"

subsection \<open>The writer\<close>

text \<open>
  \<open>NewFile\<close> (lines 148-161). \<open>res\<close> is the error result of \<open>CreateHeader\<close>. The
  returned \<open>NopWriteCloser\<close> wraps the entry writer; the model returns the error and
  the writer's new state.
\<close>

definition RWPPWriter_NewFile ::
  "error option \<Rightarrow> 'b RWPPWriter \<Rightarrow> string \<Rightarrow> string \<Rightarrow> 16 word
     \<Rightarrow> error option \<times> 'b RWPPWriter" where
  "RWPPWriter_NewFile res writer path ctype storageMethod =
     (case zip_CreateHeader res (zipWriter writer) \<lparr>Name = path, Method = storageMethod\<rparr> of
        (err, zw) \<Rightarrow>
          (err, writer\<lparr>zipWriter := zw,
                       manifest := (manifest writer)\<lparr>ReadingOrder :=
                         ReadingOrder (manifest writer)
                           @ [\<lparr>Href = path, Type = ctype, Properties = None\<rparr>]\<rparr>\<rparr>))"

text \<open>\<open>NopWriteCloser.Close\<close> (lines 143-145).\<close>

definition NopWriteCloser_Close :: "error option" where
  "NopWriteCloser_Close = None"

text \<open>
  \<open>MarkAsEncrypted\<close> (lines 165-182). The loop runs over the reading order and stops
  (\<open>break\<close>) at the first link whose href is the path. \<open>license.EncryptionProfile\<close>
  is declared outside the sources: its \<open>String\<close> method is the parameter
  \<open>profile_String\<close>. The argument \<open>originalSize\<close> is not used by the body.
\<close>

definition LCP_Scheme :: string where
  "LCP_Scheme = ''http://readium.org/2014/01/lcp''"

definition set_Encrypted :: "Encrypted \<Rightarrow> Link \<Rightarrow> Link" where
  "set_Encrypted enc resource =
     resource\<lparr>Properties := Some
       ((case Properties resource of None \<Rightarrow> new_Properties | Some p \<Rightarrow> p)
          \<lparr>Encrypted := Some enc\<rparr>)\<rparr>"

fun MarkAsEncrypted_loop :: "string \<Rightarrow> Encrypted \<Rightarrow> Link list \<Rightarrow> Link list" where
  "MarkAsEncrypted_loop path enc [] = []"
| "MarkAsEncrypted_loop path enc (resource # rest) =
     (if path = Href resource then set_Encrypted enc resource # rest
      else resource # MarkAsEncrypted_loop path enc rest)"

definition RWPPWriter_MarkAsEncrypted ::
  "('p \<Rightarrow> string) \<Rightarrow> 'b RWPPWriter \<Rightarrow> string \<Rightarrow> 64 word \<Rightarrow> 'p \<Rightarrow> string \<Rightarrow> 'b RWPPWriter" where
  "RWPPWriter_MarkAsEncrypted profile_String writer path originalSize profile algorithm =
     writer\<lparr>manifest := (manifest writer)\<lparr>ReadingOrder :=
       MarkAsEncrypted_loop path
         \<lparr>Scheme = LCP_Scheme, Profile = profile_String profile, Algorithm = algorithm\<rparr>
         (ReadingOrder (manifest writer))\<rparr>\<rparr>"

text \<open>
  \<open>writeManifest\<close> (lines 187-195). \<open>json_Encode\<close> is what \<open>encoder.Encode\<close> writes for
  a manifest, or its error; \<open>create_res\<close> is the error result of \<open>Create\<close>.
\<close>

definition RWPPWriter_writeManifest ::
  "(Publication \<Rightarrow> error + 'b list) \<Rightarrow> error option \<Rightarrow> 'b RWPPWriter
     \<Rightarrow> error option \<times> 'b RWPPWriter" where
  "RWPPWriter_writeManifest json_Encode create_res writer =
     (case zip_Create create_res (zipWriter writer) ManifestLocation of
        (Some err, zw) \<Rightarrow> (Some err, writer\<lparr>zipWriter := zw\<rparr>)
      | (None, zw) \<Rightarrow>
          (case json_Encode (manifest writer) of
             Inl err \<Rightarrow> (Some err, writer\<lparr>zipWriter := zw\<rparr>)
           | Inr bs \<Rightarrow> (None, writer\<lparr>zipWriter := zip_Write zw bs\<rparr>)))"

text \<open>\<open>Close\<close> (lines 198-205). \<open>close_res\<close> is the error result of \<open>zipWriter.Close\<close>.\<close>

definition RWPPWriter_Close ::
  "(Publication \<Rightarrow> error + 'b list) \<Rightarrow> error option \<Rightarrow> error option \<Rightarrow> 'b RWPPWriter
     \<Rightarrow> error option \<times> 'b RWPPWriter" where
  "RWPPWriter_Close json_Encode create_res close_res writer =
     (case RWPPWriter_writeManifest json_Encode create_res writer of
        (Some err, writer') \<Rightarrow> (Some err, writer')
      | (None, writer') \<Rightarrow>
          (case zip_Close close_res (zipWriter writer') of
             (err, zw) \<Rightarrow> (err, writer'\<lparr>zipWriter := zw\<rparr>)))"

subsection \<open>The reader\<close>

text \<open>
  \<open>NewRWPPReader\<close> (lines 208-238). \<open>json_Decode\<close> is what \<open>decoder.Decode\<close> makes of
  the bytes of an entry, or its error. The loop stops at the first entry named
  \<open>ManifestLocation\<close>; it returns early on an open or decode error; when it ends
  without a match (\<open>found\<close> still false) the result is \<open>Inr None\<close>.
\<close>

fun NewRWPPReader_loop ::
  "('b list \<Rightarrow> error + Publication) \<Rightarrow> 'b zipFile list \<Rightarrow> error + Publication option" where
  "NewRWPPReader_loop json_Decode [] = Inr None"
| "NewRWPPReader_loop json_Decode (f # fs) =
     (if Name f = ManifestLocation then
        (case Open f of
           Inl err \<Rightarrow> Inl err
         | Inr fileReader \<Rightarrow>
             (case json_Decode fileReader of
                Inl err \<Rightarrow> Inl err
              | Inr m \<Rightarrow> Inr (Some m)))
      else NewRWPPReader_loop json_Decode fs)"

definition NewRWPPReader ::
  "('b list \<Rightarrow> error + Publication) \<Rightarrow> 'b zipReader \<Rightarrow> error + 'b RWPPReader" where
  "NewRWPPReader json_Decode zipReader =
     (case NewRWPPReader_loop json_Decode (File zipReader) of
        Inl err \<Rightarrow> Inl err
      | Inr None \<Rightarrow> Inl (errors_New ''Could not find manifest'')
      | Inr (Some m) \<Rightarrow> Inr \<lparr>reader_manifest = m, zipArchive = zipReader\<rparr>)"

text \<open>
  \<open>Resources\<close> (lines 83-98). The index \<open>files\<close> maps a name to the last entry of that
  name; a name with no entry gives the nil pointer.
\<close>

definition files_by_name :: "'b zipFile list \<Rightarrow> (string \<rightharpoonup> 'b zipFile)" where
  "files_by_name fs = foldl (\<lambda>files f. files(Name f \<mapsto> f)) Map.empty fs"

definition link_isEncrypted :: "Link \<Rightarrow> bool" where
  "link_isEncrypted manifestResource =
     (case Properties manifestResource of
        None \<Rightarrow> False
      | Some p \<Rightarrow> (case Encrypted p of None \<Rightarrow> False | Some e \<Rightarrow> True))"

definition RWPPReader_Resources :: "'b RWPPReader \<Rightarrow> 'b rwpResource list" where
  "RWPPReader_Resources reader =
     (let files = files_by_name (File (zipArchive reader))
      in map (\<lambda>manifestResource.
                \<lparr>isEncrypted = link_isEncrypted manifestResource,
                 contentType = Type manifestResource,
                 resource_file = files (Href manifestResource)\<rparr>)
             (ReadingOrder (reader_manifest reader)))"

subsection \<open>The resource\<close>

text \<open>The methods of lines 106-112 that the properties below speak of.\<close>

definition rwpResource_Path :: "'b rwpResource \<Rightarrow> string outcome" where
  "rwpResource_Path resource =
     (case resource_file resource of None \<Rightarrow> Panics | Some f \<Rightarrow> Returns (Name f))"

definition rwpResource_ContentType :: "'b rwpResource \<Rightarrow> string" where
  "rwpResource_ContentType resource = contentType resource"

definition rwpResource_Encrypted :: "'b rwpResource \<Rightarrow> bool" where
  "rwpResource_Encrypted resource = isEncrypted resource"

definition rwpResource_CompressBeforeEncryption :: "'b rwpResource \<Rightarrow> bool" where
  "rwpResource_CompressBeforeEncryption resource = False"

definition rwpResource_CanBeEncrypted :: "'b rwpResource \<Rightarrow> bool" where
  "rwpResource_CanBeEncrypted resource = True"

text \<open>
  \<open>CopyTo\<close> (lines 114-140). \<open>PackageWriter\<close> is an interface: its \<open>NewFile\<close> is the
  parameter \<open>newFile\<close>, acting on a writer state of any type \<open>'w\<close>. The error results of
  \<open>io.Copy\<close>, of the first \<open>rc.Close\<close> and of \<open>wc.Close\<close> come from the environment.
  The deferred second \<open>rc.Close\<close> has its result dropped. The bytes that \<open>io.Copy\<close>
  moves are not modelled, only its error.
\<close>

record copy_io =
  copy_res :: "error option"
  rClose_res :: "error option"
  wClose_res :: "error option"

definition rwpResource_CopyTo ::
  "('w \<Rightarrow> string \<Rightarrow> string \<Rightarrow> 16 word \<Rightarrow> error option \<times> 'w) \<Rightarrow> copy_io
     \<Rightarrow> 'b rwpResource \<Rightarrow> 'w \<Rightarrow> (error option \<times> 'w) outcome" where
  "rwpResource_CopyTo newFile io resource packageWriter =
     (case resource_file resource of
        None \<Rightarrow> Panics
      | Some f \<Rightarrow>
          (case newFile packageWriter (Name f) (contentType resource) (Method f) of
             (Some err, pw) \<Rightarrow> Returns (Some err, pw)
           | (None, pw) \<Rightarrow>
               (case Open f of
                  Inl err \<Rightarrow> Returns (Some err, pw)
                | Inr rc \<Rightarrow>
                    (let err = copy_res io;
                         rCloseError = rClose_res io;
                         wCloseError = wClose_res io
                     in if err \<noteq> None then Returns (err, pw)
                        else if rCloseError \<noteq> None then Returns (rCloseError, pw)
                        else Returns (wCloseError, pw)))))"

section \<open>A pass over a writer\<close>

text \<open>
  The calls a driver makes on a writer before closing it: \<open>NewFile\<close> calls whose
  \<open>CreateHeader\<close> succeeds, and \<open>MarkAsEncrypted\<close> calls, in any order. The writer
  they start from is the one \<open>NewWriter\<close> hands over (lines 70-76): the reader's
  manifest with \<open>ReadingOrder\<close> set to nil, over an archive that already holds the
  entries copied from the source.
\<close>

datatype 'p writerCall =
  CallNewFile string string "16 word"
| CallMarkAsEncrypted string "64 word" 'p string

fun apply_call :: "('p \<Rightarrow> string) \<Rightarrow> 'b RWPPWriter \<Rightarrow> 'p writerCall \<Rightarrow> 'b RWPPWriter" where
  "apply_call profile_String writer (CallNewFile path ctype storageMethod) =
     snd (RWPPWriter_NewFile None writer path ctype storageMethod)"
| "apply_call profile_String writer (CallMarkAsEncrypted path originalSize profile algorithm) =
     RWPPWriter_MarkAsEncrypted profile_String writer path originalSize profile algorithm"

definition run_calls ::
  "('p \<Rightarrow> string) \<Rightarrow> 'b RWPPWriter \<Rightarrow> 'p writerCall list \<Rightarrow> 'b RWPPWriter" where
  "run_calls profile_String writer cs = foldl (apply_call profile_String) writer cs"

text \<open>
  The calls, then a \<open>Close\<close> in which nothing fails at the archive, then the container
  opened again with \<open>NewRWPPReader\<close>.
\<close>

definition build_and_reopen ::
  "('p \<Rightarrow> string) \<Rightarrow> (Publication \<Rightarrow> error + 'b list) \<Rightarrow> ('b list \<Rightarrow> error + Publication)
     \<Rightarrow> 'b RWPPWriter \<Rightarrow> 'p writerCall list \<Rightarrow> error + 'b RWPPReader" where
  "build_and_reopen profile_String json_Encode json_Decode writer cs =
     (case RWPPWriter_Close json_Encode None None (run_calls profile_String writer cs) of
        (Some err, writer') \<Rightarrow> Inl err
      | (None, writer') \<Rightarrow> NewRWPPReader json_Decode (zip_reopen (zipWriter writer')))"

text \<open>The reading order found on reopening; none when reopening fails.\<close>

definition reopened_ReadingOrder :: "error + 'b RWPPReader \<Rightarrow> Link list option" where
  "reopened_ReadingOrder r =
     (case r of Inl err \<Rightarrow> None | Inr reader \<Rightarrow> Some (ReadingOrder (reader_manifest reader)))"

text \<open>What the calls say, read off the call list alone.\<close>

fun NewFile_paths :: "'p writerCall list \<Rightarrow> string list" where
  "NewFile_paths [] = []"
| "NewFile_paths (CallNewFile path ctype storageMethod # cs) = path # NewFile_paths cs"
| "NewFile_paths (CallMarkAsEncrypted path originalSize profile algorithm # cs) =
     NewFile_paths cs"

fun MarkAsEncrypted_paths :: "'p writerCall list \<Rightarrow> string list" where
  "MarkAsEncrypted_paths [] = []"
| "MarkAsEncrypted_paths (CallNewFile path ctype storageMethod # cs) =
     MarkAsEncrypted_paths cs"
| "MarkAsEncrypted_paths (CallMarkAsEncrypted path originalSize profile algorithm # cs) =
     path # MarkAsEncrypted_paths cs"

text \<open>
  For each \<open>NewFile\<close> call in turn: its path was given to no earlier \<open>NewFile\<close> call
  (nor is among \<open>seen\<close>), and some later call is \<open>MarkAsEncrypted\<close> with that path.
\<close>

fun first_and_marked_later :: "string list \<Rightarrow> 'p writerCall list \<Rightarrow> bool list" where
  "first_and_marked_later seen [] = []"
| "first_and_marked_later seen (CallNewFile path ctype storageMethod # cs) =
     (path \<notin> set seen \<and> path \<in> set (MarkAsEncrypted_paths cs))
       # first_and_marked_later (path # seen) cs"
| "first_and_marked_later seen (CallMarkAsEncrypted path originalSize profile algorithm # cs) =
     first_and_marked_later seen cs"

text \<open>
  The same for links already in the reading order, which every call comes after: a
  link ends up with an encryption record when it had one, or when it is the first of
  its href and some call is \<open>MarkAsEncrypted\<close> with that href.
\<close>

fun present_links_encrypted :: "string list \<Rightarrow> Link list \<Rightarrow> string list \<Rightarrow> bool list" where
  "present_links_encrypted seen [] marked = []"
| "present_links_encrypted seen (l # ls) marked =
     (link_isEncrypted l \<or> (Href l \<notin> set seen \<and> Href l \<in> set marked))
       # present_links_encrypted (Href l # seen) ls marked"

text \<open>
  An encoder and a decoder to run the model with: the bytes of a manifest are one
  chunk, the manifest itself, and anything else does not decode.
\<close>

definition whole_json_Encode :: "Publication \<Rightarrow> error + Publication list" where
  "whole_json_Encode m = Inr [m]"

fun whole_json_Decode :: "Publication list \<Rightarrow> error + Publication" where
  "whole_json_Decode [m] = Inr m"
| "whole_json_Decode bs = Inl (lib_error ''EOF'')"


definition fresh_writer :: "Publication RWPPWriter" where
  "fresh_writer =
     \<lparr>manifest = \<lparr>Title = ''t'', ReadingOrder = [], Resources = []\<rparr>,
      zipWriter = \<lparr>dir = [], closed = False, calls = []\<rparr>\<rparr>"

text \<open>
  The reading order after a list of calls, as a function of the reading order alone;
  \<open>run_calls\<close> is shown below to change the reading order in just this way.
\<close>

fun links_after :: "('p \<Rightarrow> string) \<Rightarrow> Link list \<Rightarrow> 'p writerCall list \<Rightarrow> Link list" where
  "links_after S ro [] = ro"
| "links_after S ro (CallNewFile path ctype storageMethod # cs) =
     links_after S (ro @ [\<lparr>Href = path, Type = ctype, Properties = None\<rparr>]) cs"
| "links_after S ro (CallMarkAsEncrypted path originalSize profile algorithm # cs) =
     links_after S (MarkAsEncrypted_loop path
         \<lparr>Scheme = LCP_Scheme, Profile = S profile, Algorithm = algorithm\<rparr> ro) cs"

section \<open>Concrete inputs\<close>

text \<open>Writers, readers, archives and call lists on which the properties below are run.\<close>

definition three_link_writer :: "Publication RWPPWriter" where
  "three_link_writer =
     fresh_writer\<lparr>manifest := \<lparr>Title = ''t'', ReadingOrder =
        [\<lparr>Href = ''a'', Type = ''text/html'', Properties = None\<rparr>,
         \<lparr>Href = ''b'', Type = ''text/html'', Properties = None\<rparr>,
         \<lparr>Href = ''b'', Type = ''text/css'', Properties = None\<rparr>], Resources = []\<rparr>\<rparr>"

definition Data_at :: "URI \<Rightarrow> string \<Rightarrow> Data" where
  "Data_at uri ident = Data_zero\<lparr>CipherData := \<lparr>CipherReference = \<lparr>URI = uri\<rparr>, Value = []\<rparr>, ID := ident\<rparr>"

definition two_record_Manifest :: Manifest where
  "two_record_Manifest = \<lparr>Data = [Data_at ''a.xhtml'' ''1'', Data_at ''b%20c.xhtml'' ''2'']\<rparr>"

definition two_entry_archive :: "Publication zipReader" where
  "two_entry_archive =
     \<lparr>File = [\<lparr>Name = ''a.html'', Method = 8, Open = Inr []\<rparr>,
              \<lparr>Name = ''META-INF/manifest.json'', Method = 0, Open = Inr []\<rparr>]\<rparr>"

definition source_reader :: "Publication RWPPReader" where
  "source_reader =
     \<lparr>reader_manifest = \<lparr>Title = ''t'',
        ReadingOrder =
          [\<lparr>Href = ''a.html'', Type = ''text/html'',
            Properties = Some \<lparr>Encrypted = Some
              \<lparr>Scheme = ''http://readium.org/2014/01/lcp'', Profile = ''basic'',
               Algorithm = ''AES-CBC''\<rparr>\<rparr>\<rparr>,
           \<lparr>Href = ''b.html'', Type = ''text/html'', Properties = Some \<lparr>Encrypted = None\<rparr>\<rparr>,
           \<lparr>Href = ''c.html'', Type = ''text/html'', Properties = None\<rparr>],
        Resources = [\<lparr>Href = ''styles.css'', Type = ''text/css'', Properties = None\<rparr>]\<rparr>,
      zipArchive = \<lparr>File =
          [\<lparr>Name = ''a.html'', Method = 8, Open = Inr []\<rparr>,
           \<lparr>Name = ''b.html'', Method = 8, Open = Inr []\<rparr>,
           \<lparr>Name = ''styles.css'', Method = 8, Open = Inr []\<rparr>,
           \<lparr>Name = ''a.html'', Method = 0, Open = Inr []\<rparr>]\<rparr>\<rparr>"

definition html_resource :: "Publication rwpResource" where
  "html_resource =
     \<lparr>isEncrypted = False, contentType = ''text/html'',
      resource_file = Some \<lparr>Name = ''a.html'', Method = 8, Open = Inr []\<rparr>\<rparr>"

definition duplicate_path_calls :: "string writerCall list" where
  "duplicate_path_calls =
     [CallNewFile ''a.html'' ''text/html'' 8,
      CallNewFile ''a.html'' ''text/html'' 8,
      CallMarkAsEncrypted ''a.html'' 10 ''basic'' ''AES-CBC'']"

definition mark_first_calls :: "string writerCall list" where
  "mark_first_calls =
     [CallMarkAsEncrypted ''a.html'' 10 ''basic'' ''AES-CBC'',
      CallNewFile ''a.html'' ''text/html'' 8]"

definition manifest_path_calls :: "string writerCall list" where
  "manifest_path_calls = [CallNewFile ''manifest.json'' ''application/json'' 8]"

definition scenario_calls :: "string writerCall list" where
  "scenario_calls =
     [CallNewFile ''a.html'' ''text/html'' 8,
      CallMarkAsEncrypted ''a.html'' 10 ''basic'' ''AES-CBC'',
      CallNewFile ''b.html'' ''text/html'' 8]"

text \<open>
  A writer with a long manifest: the one reached from a fresh writer by a hundred
  thousand successful \<open>NewFile\<close> calls, for \<open>chapter0.html\<close>, \<open>chapter1.html\<close> and so on.
  \<open>encoder.Encode\<close> writes the encoded manifest to the manifest entry, so its error is
  also the error of the destination stream when that stream stops taking bytes:
  \<open>broken_destination_Encode\<close> is the encoder over such a destination.
\<close>

fun decimal :: "nat \<Rightarrow> string" where
  "decimal n =
     (if n < 10 then [char_of (48 + n)]
      else decimal (n div 10) @ [char_of (48 + n mod 10)])"

definition chapter_count :: nat where
  "chapter_count = 100000"

definition chapter_calls :: "string writerCall list" where
  "chapter_calls =
     map (\<lambda>n. CallNewFile (''chapter'' @ decimal n @ ''.html'') ''text/html'' 8)
       [0..<chapter_count]"

definition long_manifest_writer :: "Publication RWPPWriter" where
  "long_manifest_writer = run_calls id fresh_writer chapter_calls"

definition broken_destination_Encode :: "Publication \<Rightarrow> error + Publication list" where
  "broken_destination_Encode m = Inl (lib_error ''write: broken pipe'')"

section \<open>Properties of the writer\<close>

subsection \<open>The marking loop\<close>

lemma MarkAsEncrypted_loop_length:
  "length (MarkAsEncrypted_loop path enc ro) = length ro"
  by (induction ro) auto

lemma MarkAsEncrypted_loop_Href:
  "map Href (MarkAsEncrypted_loop path enc ro) = map Href ro"
  by (induction ro) (auto simp: set_Encrypted_def)

lemma MarkAsEncrypted_loop_no_match:
  "path \<notin> Href ` set ro \<Longrightarrow> MarkAsEncrypted_loop path enc ro = ro"
  by (induction ro) auto

lemma MarkAsEncrypted_loop_first_match:
  "i < length ro \<Longrightarrow> Href (ro ! i) = path \<Longrightarrow> \<forall>j<i. Href (ro ! j) \<noteq> path
     \<Longrightarrow> MarkAsEncrypted_loop path enc ro = ro[i := set_Encrypted enc (ro ! i)]"
proof (induction ro arbitrary: i)
  case Nil
  then show ?case by simp
next
  case (Cons l ls)
  show ?case
  proof (cases i)
    case 0
    with Cons.prems show ?thesis by simp
  next
    case (Suc k)
    with Cons.prems have "Href l \<noteq> path" by auto
    moreover have "MarkAsEncrypted_loop path enc ls = ls[k := set_Encrypted enc (ls ! k)]"
      using Cons.prems Suc by (intro Cons.IH) auto
    ultimately show ?thesis using Suc by auto
  qed
qed

lemma link_isEncrypted_set_Encrypted [simp]: "link_isEncrypted (set_Encrypted enc l)"
  by (simp add: link_isEncrypted_def set_Encrypted_def)

lemma Href_set_Encrypted [simp]: "Href (set_Encrypted enc l) = Href l"
  by (simp add: set_Encrypted_def)

lemma present_links_encrypted_none:
  "present_links_encrypted seen ro [] = map link_isEncrypted ro"
  by (induction ro arbitrary: seen) auto

lemma present_links_encrypted_append:
  "present_links_encrypted seen (xs @ ys) marked =
     present_links_encrypted seen xs marked
       @ present_links_encrypted (rev (map Href xs) @ seen) ys marked"
  by (induction xs arbitrary: seen) auto

lemma present_links_encrypted_seen:
  "p \<in> set seen \<Longrightarrow>
     present_links_encrypted seen ro (p # marked) = present_links_encrypted seen ro marked"
  by (induction ro arbitrary: seen) auto

lemma present_links_encrypted_mark:
  "p \<notin> set seen \<Longrightarrow>
     present_links_encrypted seen (MarkAsEncrypted_loop p enc ro) marked
       = present_links_encrypted seen ro (p # marked)"
proof (induction ro arbitrary: seen)
  case Nil
  then show ?case by simp
next
  case (Cons l ls)
  show ?case
  proof (cases "p = Href l")
    case True
    then show ?thesis
      using Cons.prems by (simp add: present_links_encrypted_seen)
  next
    case False
    then have "p \<notin> set (Href l # seen)" using Cons.prems by simp
    from Cons.IH [OF this] False show ?thesis by auto
  qed
qed

lemma first_and_marked_later_cong:
  "set seen = set seen' \<Longrightarrow> first_and_marked_later seen cs = first_and_marked_later seen' cs"
proof (induction seen cs arbitrary: seen' rule: first_and_marked_later.induct)
  case (1 seen)
  then show ?case by simp
next
  case (2 seen path ctype storageMethod cs)
  have "set (path # seen) = set (path # seen')" using "2.prems" by simp
  from "2.IH" [OF this] "2.prems" show ?case by simp
next
  case (3 seen path originalSize profile algorithm cs)
  then show ?case by simp
qed

text \<open>
  C9. \<open>NewFile\<close> appends the link \<open>{href: path, type: contentType}\<close> to the working
  reading order whatever \<open>CreateHeader\<close> answered: the error is handed back as it came,
  and when it is not nil the reading order has grown all the same, so the writer's
  manifest is no longer what it was.
\<close>

theorem NewFile_appends_link_even_on_error:
  "ReadingOrder (manifest (snd (RWPPWriter_NewFile res writer path ctype storageMethod))) =
     ReadingOrder (manifest writer) @ [\<lparr>Href = path, Type = ctype, Properties = None\<rparr>]
   \<and> fst (RWPPWriter_NewFile res writer path ctype storageMethod) = res
   \<and> fst (RWPPWriter_NewFile (Some err) writer path ctype storageMethod) = Some err
   \<and> ReadingOrder (manifest (snd (RWPPWriter_NewFile (Some err) writer path ctype storageMethod))) =
     ReadingOrder (manifest writer) @ [\<lparr>Href = path, Type = ctype, Properties = None\<rparr>]
   \<and> manifest (snd (RWPPWriter_NewFile (Some err) writer path ctype storageMethod))
       \<noteq> manifest writer"
proof -
  have ro: "ReadingOrder (manifest (snd (RWPPWriter_NewFile r writer path ctype storageMethod))) =
     ReadingOrder (manifest writer) @ [\<lparr>Href = path, Type = ctype, Properties = None\<rparr>]" for r
    by (simp add: RWPPWriter_NewFile_def zip_CreateHeader_def Let_def split: option.splits)
  have err: "fst (RWPPWriter_NewFile r writer path ctype storageMethod) = r" for r
    by (simp add: RWPPWriter_NewFile_def zip_CreateHeader_def Let_def split: option.splits)
  have "length (ReadingOrder (manifest
          (snd (RWPPWriter_NewFile (Some err) writer path ctype storageMethod))))
      \<noteq> length (ReadingOrder (manifest writer))"
    by (simp add: ro)
  then have "manifest (snd (RWPPWriter_NewFile (Some err) writer path ctype storageMethod))
      \<noteq> manifest writer"
    by auto
  with ro err show ?thesis by simp
qed

text \<open>
  C3. \<open>MarkAsEncrypted\<close> changes only the first link whose href is the path: that link
  keeps its href and type and gets the encryption record with the fixed scheme, the
  profile's string and the algorithm; every other link, and the rest of the writer, stay
  as they were. When no link has that href the writer is unchanged.
\<close>

theorem MarkAsEncrypted_marks_first_match_only:
  assumes ro_def: "ro = ReadingOrder (manifest writer)"
    and writer'_def: "writer' =
      RWPPWriter_MarkAsEncrypted profile_String writer path originalSize profile algorithm"
    and ro'_def: "ro' = ReadingOrder (manifest writer')"
  shows "(path \<notin> Href ` set ro \<longrightarrow> writer' = writer)
    \<and> (\<forall>i<length ro. Href (ro ! i) = path \<and> (\<forall>j<i. Href (ro ! j) \<noteq> path) \<longrightarrow>
          length ro' = length ro
        \<and> (\<forall>j<length ro. j \<noteq> i \<longrightarrow> ro' ! j = ro ! j)
        \<and> Href (ro' ! i) = path \<and> Type (ro' ! i) = Type (ro ! i)
        \<and> (\<exists>p. Properties (ro' ! i) = Some p
               \<and> Encrypted p = Some \<lparr>Scheme = ''http://readium.org/2014/01/lcp'',
                                      Profile = profile_String profile,
                                      Algorithm = algorithm\<rparr>)
        \<and> writer' = writer\<lparr>manifest := (manifest writer)\<lparr>ReadingOrder := ro'\<rparr>\<rparr>)"
proof (intro conjI allI impI)
  assume "path \<notin> Href ` set ro"
  then show "writer' = writer"
    unfolding writer'_def ro_def RWPPWriter_MarkAsEncrypted_def
    by (simp add: MarkAsEncrypted_loop_no_match)
next
  fix i assume i: "i < length ro" and m: "Href (ro ! i) = path \<and> (\<forall>j<i. Href (ro ! j) \<noteq> path)"
  let ?enc = "\<lparr>Scheme = LCP_Scheme, Profile = profile_String profile, Algorithm = algorithm\<rparr>"
  have ro': "ro' = ro[i := set_Encrypted ?enc (ro ! i)]"
    unfolding ro'_def writer'_def RWPPWriter_MarkAsEncrypted_def
    using MarkAsEncrypted_loop_first_match[of i ro path ?enc] i m by (simp add: ro_def)
  show "length ro' = length ro" by (simp add: ro')
  show "writer' = writer\<lparr>manifest := (manifest writer)\<lparr>ReadingOrder := ro'\<rparr>\<rparr>"
    unfolding ro'_def writer'_def RWPPWriter_MarkAsEncrypted_def by simp
  show "Href (ro' ! i) = path" using i m by (simp add: ro' set_Encrypted_def)
  show "Type (ro' ! i) = Type (ro ! i)" using i by (simp add: ro' set_Encrypted_def)
  show "\<exists>p. Properties (ro' ! i) = Some p
               \<and> Encrypted p = Some \<lparr>Scheme = ''http://readium.org/2014/01/lcp'',
                                      Profile = profile_String profile,
                                      Algorithm = algorithm\<rparr>"
    using i by (simp add: ro' set_Encrypted_def LCP_Scheme_def)
  fix j assume "j < length ro" "j \<noteq> i"
  then show "ro' ! j = ro ! j" by (simp add: ro')
qed

theorem MarkAsEncrypted_marks_first_match_only_witness:
  "RWPPWriter_MarkAsEncrypted id three_link_writer ''c'' 10 ''basic'' ''AES-CBC'' =
       three_link_writer
 \<and> length (ReadingOrder (manifest
       (RWPPWriter_MarkAsEncrypted id three_link_writer ''b'' 10 ''basic'' ''AES-CBC''))) = 3
 \<and> ReadingOrder (manifest
       (RWPPWriter_MarkAsEncrypted id three_link_writer ''b'' 10 ''basic'' ''AES-CBC'')) ! 0
       = \<lparr>Href = ''a'', Type = ''text/html'', Properties = None\<rparr>
 \<and> ReadingOrder (manifest
       (RWPPWriter_MarkAsEncrypted id three_link_writer ''b'' 10 ''basic'' ''AES-CBC'')) ! 2
       = \<lparr>Href = ''b'', Type = ''text/css'', Properties = None\<rparr>
 \<and> Href (ReadingOrder (manifest
       (RWPPWriter_MarkAsEncrypted id three_link_writer ''b'' 10 ''basic'' ''AES-CBC'')) ! 1)
       = ''b''
 \<and> (\<exists>p. Properties (ReadingOrder (manifest
       (RWPPWriter_MarkAsEncrypted id three_link_writer ''b'' 10 ''basic'' ''AES-CBC'')) ! 1)
         = Some p
       \<and> Encrypted p = Some \<lparr>Scheme = ''http://readium.org/2014/01/lcp'',
                              Profile = ''basic'', Algorithm = ''AES-CBC''\<rparr>)"
proof -
  let ?w = "RWPPWriter_MarkAsEncrypted id three_link_writer ''b'' 10 ''basic'' ''AES-CBC''"
  let ?ro = "ReadingOrder (manifest three_link_writer)"
  have ro: "?ro = [\<lparr>Href = ''a'', Type = ''text/html'', Properties = None\<rparr>,
         \<lparr>Href = ''b'', Type = ''text/html'', Properties = None\<rparr>,
         \<lparr>Href = ''b'', Type = ''text/css'', Properties = None\<rparr>]"
    by (simp add: three_link_writer_def fresh_writer_def)
  have nomatch: "''c'' \<notin> Href ` set ?ro" by (simp add: ro)
  have first: "1 < length ?ro \<and> Href (?ro ! 1) = ''b'' \<and> (\<forall>j<1. Href (?ro ! j) \<noteq> ''b'')"
    by (simp add: ro)
  note t = MarkAsEncrypted_marks_first_match_only [OF refl refl refl,
      where writer = three_link_writer and profile_String = id and originalSize = 10
        and profile = "''basic''" and algorithm = "''AES-CBC''"]
  from t [where path = "''c''"] nomatch
  have c: "RWPPWriter_MarkAsEncrypted id three_link_writer ''c'' 10 ''basic'' ''AES-CBC'' =
       three_link_writer" by blast
  from t [where path = "''b''"] first
  have b: "length (ReadingOrder (manifest ?w)) = length ?ro
     \<and> (\<forall>j<length ?ro. j \<noteq> 1 \<longrightarrow> ReadingOrder (manifest ?w) ! j = ?ro ! j)
     \<and> Href (ReadingOrder (manifest ?w) ! 1) = ''b''
     \<and> Type (ReadingOrder (manifest ?w) ! 1) = Type (?ro ! 1)
     \<and> (\<exists>p. Properties (ReadingOrder (manifest ?w) ! 1) = Some p
               \<and> Encrypted p = Some \<lparr>Scheme = ''http://readium.org/2014/01/lcp'',
                                      Profile = id ''basic'',
                                      Algorithm = ''AES-CBC''\<rparr>)"
    by blast
  from b have "ReadingOrder (manifest ?w) ! 0 = ?ro ! 0" "ReadingOrder (manifest ?w) ! 2 = ?ro ! 2"
    by (simp_all add: ro)
  with b c show ?thesis by (simp add: ro)
qed

lemma run_calls_calls:
  "calls (zipWriter (run_calls S writer cs))
     = calls (zipWriter writer) @ map CallCreateHeader (NewFile_paths cs)"
proof (induction cs arbitrary: writer)
  case Nil
  then show ?case by (simp add: run_calls_def)
next
  case (Cons c cs)
  have step: "run_calls S writer (c # cs) = run_calls S (apply_call S writer c) cs"
    by (simp add: run_calls_def)
  show ?case
    unfolding step Cons.IH
    by (cases c) (simp_all add: RWPPWriter_NewFile_def RWPPWriter_MarkAsEncrypted_def
        zip_CreateHeader_def)
qed

lemma run_calls_closed:
  "closed (zipWriter (run_calls S writer cs)) = closed (zipWriter writer)"
proof (induction cs arbitrary: writer)
  case Nil
  then show ?case by (simp add: run_calls_def)
next
  case (Cons c cs)
  have step: "run_calls S writer (c # cs) = run_calls S (apply_call S writer c) cs"
    by (simp add: run_calls_def)
  show ?case
    unfolding step Cons.IH
    by (cases c) (simp_all add: RWPPWriter_NewFile_def RWPPWriter_MarkAsEncrypted_def
        zip_CreateHeader_def)
qed

text \<open>
  C4. The specification of \<open>Close\<close> asks that closing the archive still be attempted when the manifest
  cannot be serialized, the serialization error being the one returned; that is what
  \<open>BuildRWPPFromPDF\<close> does with its own manifest (lines 309-313). \<open>Close\<close> does less.
  When creating the manifest entry fails, or when encoding the manifest fails, that
  error is what \<open>Close\<close> returns, but the archive has then seen the creation of the
  manifest entry as its last call: no close is made on it, its closed flag and the
  writer's manifest are as before. Only when the manifest was created and encoded is
  the archive closed, and the result of \<open>Close\<close> is then the result of closing it.
\<close>

theorem Close_stops_at_manifest_error:
  "(\<forall>err. create_res = Some err \<longrightarrow>
       fst (RWPPWriter_Close json_Encode create_res close_res writer) = Some err
     \<and> calls (zipWriter (snd (RWPPWriter_Close json_Encode create_res close_res writer)))
         = calls (zipWriter writer) @ [CallCreateHeader ManifestLocation]
     \<and> closed (zipWriter (snd (RWPPWriter_Close json_Encode create_res close_res writer)))
         = closed (zipWriter writer)
     \<and> manifest (snd (RWPPWriter_Close json_Encode create_res close_res writer))
         = manifest writer)
 \<and> (\<forall>err. create_res = None \<and> json_Encode (manifest writer) = Inl err \<longrightarrow>
       fst (RWPPWriter_Close json_Encode create_res close_res writer) = Some err
     \<and> calls (zipWriter (snd (RWPPWriter_Close json_Encode create_res close_res writer)))
         = calls (zipWriter writer) @ [CallCreateHeader ManifestLocation]
     \<and> closed (zipWriter (snd (RWPPWriter_Close json_Encode create_res close_res writer)))
         = closed (zipWriter writer)
     \<and> manifest (snd (RWPPWriter_Close json_Encode create_res close_res writer))
         = manifest writer)
 \<and> (\<forall>bs. create_res = None \<and> json_Encode (manifest writer) = Inr bs \<longrightarrow>
       fst (RWPPWriter_Close json_Encode create_res close_res writer) = close_res
     \<and> calls (zipWriter (snd (RWPPWriter_Close json_Encode create_res close_res writer)))
         = calls (zipWriter writer) @ [CallCreateHeader ManifestLocation, CallClose]
     \<and> manifest (snd (RWPPWriter_Close json_Encode create_res close_res writer))
         = manifest writer)"
proof (intro conjI allI impI)
  fix err assume "create_res = Some err"
  then have "RWPPWriter_Close json_Encode create_res close_res writer
      = (Some err, writer\<lparr>zipWriter := (zipWriter writer)
           \<lparr>calls := calls (zipWriter writer) @ [CallCreateHeader ManifestLocation]\<rparr>\<rparr>)"
    by (simp add: RWPPWriter_Close_def RWPPWriter_writeManifest_def zip_Create_def
        zip_CreateHeader_def)
  then show "fst (RWPPWriter_Close json_Encode create_res close_res writer) = Some err"
    and "calls (zipWriter (snd (RWPPWriter_Close json_Encode create_res close_res writer)))
         = calls (zipWriter writer) @ [CallCreateHeader ManifestLocation]"
    and "closed (zipWriter (snd (RWPPWriter_Close json_Encode create_res close_res writer)))
         = closed (zipWriter writer)"
    and "manifest (snd (RWPPWriter_Close json_Encode create_res close_res writer))
         = manifest writer"
    by simp_all
next
  fix err assume "create_res = None \<and> json_Encode (manifest writer) = Inl err"
  then have "RWPPWriter_Close json_Encode create_res close_res writer
      = (Some err, writer\<lparr>zipWriter := (zipWriter writer)
           \<lparr>calls := calls (zipWriter writer) @ [CallCreateHeader ManifestLocation],
            dir := dir (zipWriter writer) @ [(\<lparr>Name = ManifestLocation, Method = 8\<rparr>, [])]\<rparr>\<rparr>)"
    by (simp add: RWPPWriter_Close_def RWPPWriter_writeManifest_def zip_Create_def
        zip_CreateHeader_def)
  then show "fst (RWPPWriter_Close json_Encode create_res close_res writer) = Some err"
    and "calls (zipWriter (snd (RWPPWriter_Close json_Encode create_res close_res writer)))
         = calls (zipWriter writer) @ [CallCreateHeader ManifestLocation]"
    and "closed (zipWriter (snd (RWPPWriter_Close json_Encode create_res close_res writer)))
         = closed (zipWriter writer)"
    and "manifest (snd (RWPPWriter_Close json_Encode create_res close_res writer))
         = manifest writer"
    by simp_all
next
  fix bs assume ok: "create_res = None \<and> json_Encode (manifest writer) = Inr bs"
  obtain r zw where zc: "zip_Close close_res
        (zip_Write ((zipWriter writer)
           \<lparr>calls := calls (zipWriter writer) @ [CallCreateHeader ManifestLocation],
            dir := dir (zipWriter writer) @ [(\<lparr>Name = ManifestLocation, Method = 8\<rparr>, [])]\<rparr>) bs)
        = (r, zw)"
    by (cases "zip_Close close_res
        (zip_Write ((zipWriter writer)
           \<lparr>calls := calls (zipWriter writer) @ [CallCreateHeader ManifestLocation],
            dir := dir (zipWriter writer) @ [(\<lparr>Name = ManifestLocation, Method = 8\<rparr>, [])]\<rparr>) bs)")
  from zc have r: "r = close_res"
    and zw: "calls zw = calls (zipWriter writer) @ [CallCreateHeader ManifestLocation, CallClose]"
    by (auto simp: zip_Close_def zip_Write_def Let_def split: option.splits)
  from ok zc have "RWPPWriter_Close json_Encode create_res close_res writer
      = (r, writer\<lparr>zipWriter := zw\<rparr>)"
    by (simp add: RWPPWriter_Close_def RWPPWriter_writeManifest_def zip_Create_def
        zip_CreateHeader_def)
  with r zw show "fst (RWPPWriter_Close json_Encode create_res close_res writer) = close_res"
    and "calls (zipWriter (snd (RWPPWriter_Close json_Encode create_res close_res writer)))
         = calls (zipWriter writer) @ [CallCreateHeader ManifestLocation, CallClose]"
    and "manifest (snd (RWPPWriter_Close json_Encode create_res close_res writer))
         = manifest writer"
    by simp_all
qed

text \<open>
  The three cases run. Over a destination that no longer takes bytes, closing the
  long-manifest writer returns the write error, and the archive is left unclosed with
  no close call among the calls it has seen.
\<close>

theorem Close_stops_at_manifest_error_witness:
  "fst (RWPPWriter_Close broken_destination_Encode None None long_manifest_writer)
     = Some (lib_error ''write: broken pipe'')
 \<and> CallClose \<notin> set (calls (zipWriter
       (snd (RWPPWriter_Close broken_destination_Encode None None long_manifest_writer))))
 \<and> \<not> closed (zipWriter
       (snd (RWPPWriter_Close broken_destination_Encode None None long_manifest_writer)))
 \<and> fst (RWPPWriter_Close whole_json_Encode (Some (lib_error ''zip: write error'')) None
          fresh_writer) = Some (lib_error ''zip: write error'')
 \<and> calls (zipWriter (snd (RWPPWriter_Close whole_json_Encode
          (Some (lib_error ''zip: write error'')) None fresh_writer)))
     = [CallCreateHeader ''manifest.json'']
 \<and> fst (RWPPWriter_Close whole_json_Encode None (Some (lib_error ''close'')) fresh_writer)
     = Some (lib_error ''close'')
 \<and> calls (zipWriter (snd (RWPPWriter_Close whole_json_Encode None
          (Some (lib_error ''close'')) fresh_writer)))
     = [CallCreateHeader ''manifest.json'', CallClose]"
proof -
  have enc: "(None :: error option) = None
      \<and> broken_destination_Encode (manifest long_manifest_writer)
          = Inl (lib_error ''write: broken pipe'')"
    by (simp add: broken_destination_Encode_def)
  have before: "CallClose \<notin> set (calls (zipWriter long_manifest_writer))"
      "\<not> closed (zipWriter long_manifest_writer)"
    by (auto simp: long_manifest_writer_def run_calls_calls run_calls_closed fresh_writer_def)
  have ok: "(None :: error option) = None
      \<and> whole_json_Encode (manifest fresh_writer) = Inr [manifest fresh_writer]"
    by (simp add: whole_json_Encode_def)
  have fresh: "calls (zipWriter fresh_writer) = []" by (simp add: fresh_writer_def)
  note t = Close_stops_at_manifest_error
  from t [where create_res = None and json_Encode = broken_destination_Encode
      and writer = long_manifest_writer and close_res = None] enc before
  have 1: "fst (RWPPWriter_Close broken_destination_Encode None None long_manifest_writer)
     = Some (lib_error ''write: broken pipe'')
   \<and> CallClose \<notin> set (calls (zipWriter
       (snd (RWPPWriter_Close broken_destination_Encode None None long_manifest_writer))))
   \<and> \<not> closed (zipWriter
       (snd (RWPPWriter_Close broken_destination_Encode None None long_manifest_writer)))"
    by simp
  from t [where create_res = "Some (lib_error ''zip: write error'')"
      and json_Encode = whole_json_Encode and writer = fresh_writer and close_res = None] fresh
  have 2: "fst (RWPPWriter_Close whole_json_Encode (Some (lib_error ''zip: write error'')) None
          fresh_writer) = Some (lib_error ''zip: write error'')
   \<and> calls (zipWriter (snd (RWPPWriter_Close whole_json_Encode
          (Some (lib_error ''zip: write error'')) None fresh_writer)))
     = [CallCreateHeader ''manifest.json'']"
    by (simp add: ManifestLocation_def)
  from t [where create_res = None and json_Encode = whole_json_Encode
      and writer = fresh_writer and close_res = "Some (lib_error ''close'')"] ok fresh
  have 3: "fst (RWPPWriter_Close whole_json_Encode None (Some (lib_error ''close'')) fresh_writer)
     = Some (lib_error ''close'')
   \<and> calls (zipWriter (snd (RWPPWriter_Close whole_json_Encode None
          (Some (lib_error ''close'')) fresh_writer)))
     = [CallCreateHeader ''manifest.json'', CallClose]"
    by (simp add: ManifestLocation_def)
  from 1 2 3 show ?thesis by blast
qed

section \<open>Properties of the reader and of resources\<close>

lemma NewRWPPReader_loop_absent:
  "ManifestLocation \<notin> Name ` set fs \<Longrightarrow> NewRWPPReader_loop json_Decode fs = Inr None"
  by (induction fs) auto

text \<open>
  C8. A container with no entry named \<open>manifest.json\<close> does not open: the result is
  the error \<open>Could not find manifest\<close>, and no reader.
\<close>

theorem NewRWPPReader_manifest_absent:
  assumes "\<forall>f \<in> set (File zipReader). Name f \<noteq> ''manifest.json''"
  shows "NewRWPPReader json_Decode zipReader = Inl (errors_New ''Could not find manifest'')"
proof -
  from assms have "ManifestLocation \<notin> Name ` set (File zipReader)"
    by (auto simp: ManifestLocation_def)
  then show ?thesis
    by (simp add: NewRWPPReader_def NewRWPPReader_loop_absent)
qed

theorem NewRWPPReader_manifest_absent_witness:
  "NewRWPPReader whole_json_Decode two_entry_archive
     = Inl (errors_New ''Could not find manifest'')
   \<and> NewRWPPReader whole_json_Decode \<lparr>File = []\<rparr> = Inl (errors_New ''Could not find manifest'')"
proof -
  have "\<forall>f \<in> set (File two_entry_archive). Name f \<noteq> ''manifest.json''"
    by (simp add: two_entry_archive_def)
  moreover have "\<forall>f \<in> set (File (\<lparr>File = []\<rparr> :: Publication zipReader)). Name f \<noteq> ''manifest.json''"
    by simp
  ultimately show ?thesis
    using NewRWPPReader_manifest_absent [of two_entry_archive whole_json_Decode]
      NewRWPPReader_manifest_absent [of "\<lparr>File = []\<rparr>" whole_json_Decode]
    by blast
qed

lemma files_by_name_snoc:
  "files_by_name (fs @ [f]) = (files_by_name fs)(Name f \<mapsto> f)"
  by (simp add: files_by_name_def)

lemma files_by_name_None:
  "(files_by_name fs name = None) = (name \<notin> Name ` set fs)"
  by (induction fs rule: rev_induct) (auto simp: files_by_name_snoc files_by_name_def)

lemma files_by_name_Some:
  "files_by_name fs name = Some f \<Longrightarrow> f \<in> set fs \<and> Name f = name"
  by (induction fs rule: rev_induct)
     (auto simp: files_by_name_snoc files_by_name_def split: if_splits)

lemma files_by_name_last:
  "Name f \<notin> Name ` set later \<Longrightarrow> files_by_name (earlier @ f # later) (Name f) = Some f"
proof (induction later rule: rev_induct)
  case Nil
  then show ?case by (simp add: files_by_name_snoc)
next
  case (snoc g later)
  have "files_by_name (earlier @ f # later @ [g]) = files_by_name ((earlier @ f # later) @ [g])"
    by simp
  also have "\<dots> = (files_by_name (earlier @ f # later))(Name g \<mapsto> g)"
    by (rule files_by_name_snoc)
  finally show ?case using snoc by auto
qed

lemma files_by_name_nth:
  assumes "k < length fs" and "\<forall>k'<length fs. k < k' \<longrightarrow> Name (fs ! k') \<noteq> Name (fs ! k)"
  shows "files_by_name fs (Name (fs ! k)) = Some (fs ! k)"
proof -
  have split: "fs = take k fs @ fs ! k # drop (Suc k) fs"
    using assms(1) by (rule id_take_nth_drop)
  have "Name (fs ! k) \<notin> Name ` set (drop (Suc k) fs)"
  proof
    assume "Name (fs ! k) \<in> Name ` set (drop (Suc k) fs)"
    then obtain g where g: "g \<in> set (drop (Suc k) fs)" and n: "Name g = Name (fs ! k)" by auto
    from g obtain d where d: "d < length (drop (Suc k) fs)" and gd: "g = drop (Suc k) fs ! d"
      by (auto simp: in_set_conv_nth)
    from d have "Suc k + d < length fs" by simp
    moreover have "g = fs ! (Suc k + d)" using gd d by simp
    ultimately show False using assms(2) n by auto
  qed
  from files_by_name_last [OF this, of "take k fs"] split show ?thesis by simp
qed

text \<open>
  C7. \<open>Resources\<close> gives one resource per link of the reading order, in order. The
  resource has the link's type and is flagged encrypted exactly when the link has
  properties holding an encryption record. It stands for the archive entry named by the
  link's href: when the archive has such an entry the resource holds one (the last of
  that name) and its path is the href; when it has none the resource holds no entry.
  The manifest's list of ancillary resources plays no part.
\<close>

theorem Resources_follow_reading_order:
  "length (RWPPReader_Resources reader) = length (ReadingOrder (reader_manifest reader))
 \<and> (\<forall>i<length (ReadingOrder (reader_manifest reader)).
       contentType (RWPPReader_Resources reader ! i)
         = Type (ReadingOrder (reader_manifest reader) ! i)
     \<and> isEncrypted (RWPPReader_Resources reader ! i)
         = (\<exists>p e. Properties (ReadingOrder (reader_manifest reader) ! i) = Some p
                 \<and> Encrypted p = Some e)
     \<and> ((\<exists>f \<in> set (File (zipArchive reader)).
            Name f = Href (ReadingOrder (reader_manifest reader) ! i)) \<longrightarrow>
          (\<exists>f \<in> set (File (zipArchive reader)).
             resource_file (RWPPReader_Resources reader ! i) = Some f
             \<and> Name f = Href (ReadingOrder (reader_manifest reader) ! i))
          \<and> rwpResource_Path (RWPPReader_Resources reader ! i)
               = Returns (Href (ReadingOrder (reader_manifest reader) ! i)))
     \<and> ((\<forall>f \<in> set (File (zipArchive reader)).
            Name f \<noteq> Href (ReadingOrder (reader_manifest reader) ! i)) \<longrightarrow>
          resource_file (RWPPReader_Resources reader ! i) = None
          \<and> rwpResource_Path (RWPPReader_Resources reader ! i) = Panics)
     \<and> (\<forall>k<length (File (zipArchive reader)).
          Name (File (zipArchive reader) ! k) = Href (ReadingOrder (reader_manifest reader) ! i)
          \<and> (\<forall>k'<length (File (zipArchive reader)). k < k' \<longrightarrow>
                Name (File (zipArchive reader) ! k')
                  \<noteq> Href (ReadingOrder (reader_manifest reader) ! i)) \<longrightarrow>
          resource_file (RWPPReader_Resources reader ! i)
            = Some (File (zipArchive reader) ! k)))
 \<and> RWPPReader_Resources
      (reader\<lparr>reader_manifest := (reader_manifest reader)\<lparr>Resources := ancillary\<rparr>\<rparr>)
     = RWPPReader_Resources reader"
proof -
  let ?ro = "ReadingOrder (reader_manifest reader)"
  let ?fs = "File (zipArchive reader)"
  have len: "length (RWPPReader_Resources reader) = length ?ro"
    by (simp add: RWPPReader_Resources_def Let_def)
  have anc: "RWPPReader_Resources
      (reader\<lparr>reader_manifest := (reader_manifest reader)\<lparr>Resources := ancillary\<rparr>\<rparr>)
     = RWPPReader_Resources reader"
    by (simp add: RWPPReader_Resources_def Let_def)
  have each: "contentType (RWPPReader_Resources reader ! i) = Type (?ro ! i)
     \<and> isEncrypted (RWPPReader_Resources reader ! i)
         = (\<exists>p e. Properties (?ro ! i) = Some p \<and> Encrypted p = Some e)
     \<and> ((\<exists>f \<in> set ?fs. Name f = Href (?ro ! i)) \<longrightarrow>
          (\<exists>f \<in> set ?fs. resource_file (RWPPReader_Resources reader ! i) = Some f
             \<and> Name f = Href (?ro ! i))
          \<and> rwpResource_Path (RWPPReader_Resources reader ! i) = Returns (Href (?ro ! i)))
     \<and> ((\<forall>f \<in> set ?fs. Name f \<noteq> Href (?ro ! i)) \<longrightarrow>
          resource_file (RWPPReader_Resources reader ! i) = None
          \<and> rwpResource_Path (RWPPReader_Resources reader ! i) = Panics)
     \<and> (\<forall>k<length ?fs.
          Name (?fs ! k) = Href (?ro ! i)
          \<and> (\<forall>k'<length ?fs. k < k' \<longrightarrow> Name (?fs ! k') \<noteq> Href (?ro ! i)) \<longrightarrow>
          resource_file (RWPPReader_Resources reader ! i) = Some (?fs ! k))"
    if i: "i < length ?ro" for i
  proof -
    have entry: "resource_file (RWPPReader_Resources reader ! i) = files_by_name ?fs (Href (?ro ! i))"
      using i by (simp add: RWPPReader_Resources_def Let_def)
    have ct: "contentType (RWPPReader_Resources reader ! i) = Type (?ro ! i)"
      using i by (simp add: RWPPReader_Resources_def Let_def)
    have enc: "isEncrypted (RWPPReader_Resources reader ! i)
         = (\<exists>p e. Properties (?ro ! i) = Some p \<and> Encrypted p = Some e)"
      using i by (auto simp: RWPPReader_Resources_def Let_def link_isEncrypted_def
          split: option.splits)
    have present: "(\<exists>f \<in> set ?fs. resource_file (RWPPReader_Resources reader ! i) = Some f
             \<and> Name f = Href (?ro ! i))
          \<and> rwpResource_Path (RWPPReader_Resources reader ! i) = Returns (Href (?ro ! i))"
      if "\<exists>f \<in> set ?fs. Name f = Href (?ro ! i)"
    proof -
      from that have "Href (?ro ! i) \<in> Name ` set ?fs"
        by (metis imageI)
      then have "files_by_name ?fs (Href (?ro ! i)) \<noteq> None"
        by (simp add: files_by_name_None)
      then obtain f where f: "files_by_name ?fs (Href (?ro ! i)) = Some f" by auto
      from files_by_name_Some [OF f] f entry show ?thesis
        by (auto simp: rwpResource_Path_def)
    qed
    have absent: "resource_file (RWPPReader_Resources reader ! i) = None
          \<and> rwpResource_Path (RWPPReader_Resources reader ! i) = Panics"
      if "\<forall>f \<in> set ?fs. Name f \<noteq> Href (?ro ! i)"
    proof -
      from that have "Href (?ro ! i) \<notin> Name ` set ?fs"
        by (metis imageE)
      then have "files_by_name ?fs (Href (?ro ! i)) = None"
        by (simp add: files_by_name_None)
      with entry show ?thesis by (simp add: rwpResource_Path_def)
    qed
    have last: "resource_file (RWPPReader_Resources reader ! i) = Some (?fs ! k)"
      if "k < length ?fs" and "Name (?fs ! k) = Href (?ro ! i)
          \<and> (\<forall>k'<length ?fs. k < k' \<longrightarrow> Name (?fs ! k') \<noteq> Href (?ro ! i))" for k
      using files_by_name_nth [of k ?fs] that entry by auto
    from ct enc present absent last show ?thesis by blast
  qed
  from len anc each show ?thesis by blast
qed

theorem Resources_follow_reading_order_witness:
  "length (RWPPReader_Resources source_reader) = 3
 \<and> isEncrypted (RWPPReader_Resources source_reader ! 0)
 \<and> contentType (RWPPReader_Resources source_reader ! 0) = ''text/html''
 \<and> rwpResource_Path (RWPPReader_Resources source_reader ! 0) = Returns ''a.html''
 \<and> resource_file (RWPPReader_Resources source_reader ! 0)
     = Some \<lparr>Name = ''a.html'', Method = 0, Open = Inr []\<rparr>
 \<and> \<not> isEncrypted (RWPPReader_Resources source_reader ! 1)
 \<and> rwpResource_Path (RWPPReader_Resources source_reader ! 1) = Returns ''b.html''
 \<and> \<not> isEncrypted (RWPPReader_Resources source_reader ! 2)
 \<and> resource_file (RWPPReader_Resources source_reader ! 2) = None
 \<and> rwpResource_Path (RWPPReader_Resources source_reader ! 2) = Panics"
proof -
  let ?rs = "RWPPReader_Resources source_reader"
  have ro: "ReadingOrder (reader_manifest source_reader) =
          [\<lparr>Href = ''a.html'', Type = ''text/html'',
            Properties = Some \<lparr>Encrypted = Some
              \<lparr>Scheme = ''http://readium.org/2014/01/lcp'', Profile = ''basic'',
               Algorithm = ''AES-CBC''\<rparr>\<rparr>\<rparr>,
           \<lparr>Href = ''b.html'', Type = ''text/html'', Properties = Some \<lparr>Encrypted = None\<rparr>\<rparr>,
           \<lparr>Href = ''c.html'', Type = ''text/html'', Properties = None\<rparr>]"
    by (simp add: source_reader_def)
  have fs: "File (zipArchive source_reader) =
          [\<lparr>Name = ''a.html'', Method = 8, Open = Inr []\<rparr>,
           \<lparr>Name = ''b.html'', Method = 8, Open = Inr []\<rparr>,
           \<lparr>Name = ''styles.css'', Method = 8, Open = Inr []\<rparr>,
           \<lparr>Name = ''a.html'', Method = 0, Open = Inr []\<rparr>]"
    by (simp add: source_reader_def)
  note t = Resources_follow_reading_order [of source_reader]
  from t have len: "length ?rs = 3" by (simp add: ro)
  from t have at: "i < 3 \<Longrightarrow>
       contentType (?rs ! i) = Type (ReadingOrder (reader_manifest source_reader) ! i)
     \<and> isEncrypted (?rs ! i)
         = (\<exists>p e. Properties (ReadingOrder (reader_manifest source_reader) ! i) = Some p
                 \<and> Encrypted p = Some e)
     \<and> ((\<exists>f \<in> set (File (zipArchive source_reader)).
            Name f = Href (ReadingOrder (reader_manifest source_reader) ! i)) \<longrightarrow>
          rwpResource_Path (?rs ! i)
               = Returns (Href (ReadingOrder (reader_manifest source_reader) ! i)))
     \<and> ((\<forall>f \<in> set (File (zipArchive source_reader)).
            Name f \<noteq> Href (ReadingOrder (reader_manifest source_reader) ! i)) \<longrightarrow>
          resource_file (?rs ! i) = None \<and> rwpResource_Path (?rs ! i) = Panics)
     \<and> (\<forall>k<length (File (zipArchive source_reader)).
          Name (File (zipArchive source_reader) ! k)
            = Href (ReadingOrder (reader_manifest source_reader) ! i)
          \<and> (\<forall>k'<length (File (zipArchive source_reader)). k < k' \<longrightarrow>
                Name (File (zipArchive source_reader) ! k')
                  \<noteq> Href (ReadingOrder (reader_manifest source_reader) ! i)) \<longrightarrow>
          resource_file (?rs ! i) = Some (File (zipArchive source_reader) ! k))" for i
    by (simp add: ro)
  from at [of 0] have 0: "isEncrypted (?rs ! 0) \<and> contentType (?rs ! 0) = ''text/html''
      \<and> rwpResource_Path (?rs ! 0) = Returns ''a.html''"
    by (simp add: ro fs)
  from at [of 0] have "3 < length (File (zipArchive source_reader)) \<longrightarrow>
          Name (File (zipArchive source_reader) ! 3)
            = Href (ReadingOrder (reader_manifest source_reader) ! 0)
          \<and> (\<forall>k'<length (File (zipArchive source_reader)). 3 < k' \<longrightarrow>
                Name (File (zipArchive source_reader) ! k')
                  \<noteq> Href (ReadingOrder (reader_manifest source_reader) ! 0)) \<longrightarrow>
          resource_file (?rs ! 0) = Some (File (zipArchive source_reader) ! 3)"
    by simp
  then have last0: "resource_file (?rs ! 0) = Some \<lparr>Name = ''a.html'', Method = 0, Open = Inr []\<rparr>"
    by (simp add: ro fs)
  from at [of 1] have 1: "\<not> isEncrypted (?rs ! 1)
      \<and> rwpResource_Path (?rs ! 1) = Returns ''b.html''"
    by (simp add: ro fs)
  from at [of 2] have 2: "\<not> isEncrypted (?rs ! 2) \<and> resource_file (?rs ! 2) = None
      \<and> rwpResource_Path (?rs ! 2) = Panics"
    by (simp add: ro fs)
  from len 0 last0 1 2 show ?thesis by simp
qed

text \<open>
  C10. Every resource the reader produces can be encrypted and is not compressed before
  encryption; so does any resource at all, whatever its path, content type and
  encryption flag.
\<close>

theorem resource_eligibility_flags_constant:
  "map rwpResource_CanBeEncrypted (RWPPReader_Resources reader)
     = replicate (length (ReadingOrder (reader_manifest reader))) True
 \<and> map rwpResource_CompressBeforeEncryption (RWPPReader_Resources reader)
     = replicate (length (ReadingOrder (reader_manifest reader))) False
 \<and> rwpResource_CanBeEncrypted resource
 \<and> \<not> rwpResource_CompressBeforeEncryption resource"
  by (simp add: RWPPReader_Resources_def Let_def rwpResource_CanBeEncrypted_def
      rwpResource_CompressBeforeEncryption_def map_replicate_const comp_def)

text \<open>
  C2. Once \<open>CopyTo\<close> has created the destination entry and opened the source: an error
  of the byte transfer is the one returned, whatever the two closes answered; with a
  clean transfer, an error closing the source is the one returned, whatever closing the
  destination answered; with both clean, the result is that of closing the destination.
\<close>

theorem CopyTo_error_precedence:
  assumes "resource_file resource = Some f"
    and "newFile packageWriter (Name f) (contentType resource) (Method f) = (None, pw)"
    and "Open f = Inr rc"
  shows "(\<forall>err. copy_res io = Some err \<longrightarrow>
            rwpResource_CopyTo newFile io resource packageWriter = Returns (Some err, pw))
       \<and> (\<forall>err. copy_res io = None \<and> rClose_res io = Some err \<longrightarrow>
            rwpResource_CopyTo newFile io resource packageWriter = Returns (Some err, pw))
       \<and> (copy_res io = None \<and> rClose_res io = None \<longrightarrow>
            rwpResource_CopyTo newFile io resource packageWriter = Returns (wClose_res io, pw))"
  using assms by (auto simp: rwpResource_CopyTo_def Let_def)

theorem CopyTo_error_precedence_witness:
  "fst (case rwpResource_CopyTo (RWPPWriter_NewFile None)
          \<lparr>copy_res = Some (lib_error ''read''), rClose_res = Some (lib_error ''rclose''),
           wClose_res = Some (lib_error ''wclose'')\<rparr> html_resource fresh_writer
        of Returns r \<Rightarrow> r) = Some (lib_error ''read'')
 \<and> fst (case rwpResource_CopyTo (RWPPWriter_NewFile None)
          \<lparr>copy_res = None, rClose_res = Some (lib_error ''rclose''),
           wClose_res = Some (lib_error ''wclose'')\<rparr> html_resource fresh_writer
        of Returns r \<Rightarrow> r) = Some (lib_error ''rclose'')
 \<and> fst (case rwpResource_CopyTo (RWPPWriter_NewFile None)
          \<lparr>copy_res = None, rClose_res = None,
           wClose_res = Some (lib_error ''wclose'')\<rparr> html_resource fresh_writer
        of Returns r \<Rightarrow> r) = Some (lib_error ''wclose'')"
proof -
  obtain pw where nf: "RWPPWriter_NewFile None fresh_writer ''a.html'' ''text/html'' 8 = (None, pw)"
    by (simp add: RWPPWriter_NewFile_def zip_CreateHeader_def)
  have f: "resource_file html_resource = Some \<lparr>Name = ''a.html'', Method = 8, Open = Inr []\<rparr>"
    by (simp add: html_resource_def)
  have nf': "RWPPWriter_NewFile None fresh_writer (Name \<lparr>Name = ''a.html'', Method = 8, Open = Inr []\<rparr>)
     (contentType html_resource) (Method \<lparr>Name = ''a.html'', Method = 8, Open = Inr []\<rparr>) = (None, pw)"
    using nf by (simp add: html_resource_def)
  have op: "Open \<lparr>Name = ''a.html'', Method = 8, Open = Inr ([] :: Publication list)\<rparr> = Inr []"
    by simp
  note t = CopyTo_error_precedence [where newFile = "RWPPWriter_NewFile None"
      and packageWriter = fresh_writer and resource = html_resource, OF f nf' op]
  show ?thesis
    using t [of "\<lparr>copy_res = Some (lib_error ''read''), rClose_res = Some (lib_error ''rclose''),
           wClose_res = Some (lib_error ''wclose'')\<rparr>"]
      t [of "\<lparr>copy_res = None, rClose_res = Some (lib_error ''rclose''),
           wClose_res = Some (lib_error ''wclose'')\<rparr>"]
      t [of "\<lparr>copy_res = None, rClose_res = None,
           wClose_res = Some (lib_error ''wclose'')\<rparr>"]
    by simp
qed

section \<open>Properties of the XML encryption manifest\<close>

lemma DataForFile_loop_no_match:
  "\<forall>d \<in> set ds. URI (CipherReference (CipherData d)) \<noteq> uri \<Longrightarrow> DataForFile_loop uri ds = (Data_zero, False)"
  by (induction ds) auto

lemma DataForFile_loop_first_match:
  "i < length ds \<Longrightarrow> URI (CipherReference (CipherData (ds ! i))) = uri
     \<Longrightarrow> \<forall>j<i. URI (CipherReference (CipherData (ds ! j))) \<noteq> uri
     \<Longrightarrow> DataForFile_loop uri ds = (ds ! i, True)"
proof (induction ds arbitrary: i)
  case Nil
  then show ?case by simp
next
  case (Cons d ds)
  show ?case
  proof (cases i)
    case 0
    with Cons.prems show ?thesis by simp
  next
    case (Suc k)
    with Cons.prems have "URI (CipherReference (CipherData d)) \<noteq> uri" by auto
    moreover have "DataForFile_loop uri ds = (ds ! k, True)"
      using Cons.prems Suc by (intro Cons.IH) auto
    ultimately show ?thesis using Suc by simp
  qed
qed

text \<open>
  C5. \<open>DataForFile\<close> compares the escaped path of the parsed path, as a string, with the
  cipher-reference URI of each record in turn and returns the first record where they
  are equal. It finds nothing in a manifest with no records, nothing when the path does
  not parse, nothing when no record's URI is that string; and when exactly one record's
  URI is that string, that record is the one returned.
\<close>

theorem DataForFile_first_exact_match:
  "(Data m = [] \<longrightarrow> Manifest_DataForFile url_Parse EscapedPath m p = (Data_zero, False))
 \<and> (\<forall>err. url_Parse p = Inl err \<longrightarrow>
        Manifest_DataForFile url_Parse EscapedPath m p = (Data_zero, False))
 \<and> (\<forall>u. url_Parse p = Inr u \<longrightarrow>
      ((\<forall>d \<in> set (Data m). URI (CipherReference (CipherData d)) \<noteq> EscapedPath u) \<longrightarrow>
          Manifest_DataForFile url_Parse EscapedPath m p = (Data_zero, False))
    \<and> (\<forall>i<length (Data m).
          URI (CipherReference (CipherData (Data m ! i))) = EscapedPath u
          \<and> (\<forall>j<i. URI (CipherReference (CipherData (Data m ! j))) \<noteq> EscapedPath u) \<longrightarrow>
          Manifest_DataForFile url_Parse EscapedPath m p = (Data m ! i, True))
    \<and> (\<forall>i<length (Data m).
          (\<forall>j<length (Data m).
             (URI (CipherReference (CipherData (Data m ! j))) = EscapedPath u) = (j = i)) \<longrightarrow>
          Manifest_DataForFile url_Parse EscapedPath m p = (Data m ! i, True)))"
proof (intro conjI allI impI)
  assume "Data m = []"
  then show "Manifest_DataForFile url_Parse EscapedPath m p = (Data_zero, False)"
    by (simp add: Manifest_DataForFile_def split: sum.splits)
next
  fix err assume "url_Parse p = Inl err"
  then show "Manifest_DataForFile url_Parse EscapedPath m p = (Data_zero, False)"
    by (simp add: Manifest_DataForFile_def)
next
  fix u assume "url_Parse p = Inr u"
    and "\<forall>d \<in> set (Data m). URI (CipherReference (CipherData d)) \<noteq> EscapedPath u"
  then show "Manifest_DataForFile url_Parse EscapedPath m p = (Data_zero, False)"
    by (simp add: Manifest_DataForFile_def DataForFile_loop_no_match)
next
  fix u i assume "url_Parse p = Inr u" "i < length (Data m)"
    and "URI (CipherReference (CipherData (Data m ! i))) = EscapedPath u
          \<and> (\<forall>j<i. URI (CipherReference (CipherData (Data m ! j))) \<noteq> EscapedPath u)"
  then show "Manifest_DataForFile url_Parse EscapedPath m p = (Data m ! i, True)"
    by (simp add: Manifest_DataForFile_def DataForFile_loop_first_match)
next
  fix u i assume u: "url_Parse p = Inr u" and i: "i < length (Data m)"
    and only: "\<forall>j<length (Data m).
             (URI (CipherReference (CipherData (Data m ! j))) = EscapedPath u) = (j = i)"
  from i only have "URI (CipherReference (CipherData (Data m ! i))) = EscapedPath u" by blast
  moreover from i only have "\<forall>j<i. URI (CipherReference (CipherData (Data m ! j))) \<noteq> EscapedPath u"
    by auto
  ultimately show "Manifest_DataForFile url_Parse EscapedPath m p = (Data m ! i, True)"
    using u i by (simp add: Manifest_DataForFile_def DataForFile_loop_first_match)
qed

theorem DataForFile_first_exact_match_witness:
  "Manifest_DataForFile Inr id \<lparr>Data = []\<rparr> ''a.xhtml'' = (Data_zero, False)
 \<and> Manifest_DataForFile Inr id two_record_Manifest ''b c.xhtml'' = (Data_zero, False)
 \<and> Manifest_DataForFile Inr id two_record_Manifest ''b%20c.xhtml'' = (Data_at ''b%20c.xhtml'' ''2'', True)
 \<and> Manifest_DataForFile (\<lambda>p. Inl (lib_error ''parse'')) id two_record_Manifest ''a.xhtml''
      = (Data_zero, False)"
proof -
  have ds: "Data two_record_Manifest = [Data_at ''a.xhtml'' ''1'', Data_at ''b%20c.xhtml'' ''2'']"
    by (simp add: two_record_Manifest_def)
  have uri: "URI (CipherReference (CipherData (Data_at x y))) = x" for x y
    by (simp add: Data_at_def)
  note t = DataForFile_first_exact_match [where EscapedPath = id]
  have 1: "Manifest_DataForFile Inr id \<lparr>Data = []\<rparr> ''a.xhtml'' = (Data_zero, False)"
    using t [where m = "\<lparr>Data = []\<rparr>" and url_Parse = Inr and p = "''a.xhtml''"] by simp
  have 2: "Manifest_DataForFile Inr id two_record_Manifest ''b c.xhtml'' = (Data_zero, False)"
    using t [where m = two_record_Manifest and url_Parse = Inr and p = "''b c.xhtml''"]
    by (simp add: ds uri)
  have 3: "Manifest_DataForFile Inr id two_record_Manifest ''b%20c.xhtml''
             = (Data_at ''b%20c.xhtml'' ''2'', True)"
    using t [where m = two_record_Manifest and url_Parse = Inr and p = "''b%20c.xhtml''"]
    by (simp add: ds uri less_Suc_eq)
  have 4: "Manifest_DataForFile (\<lambda>p. Inl (lib_error ''parse'')) id two_record_Manifest ''a.xhtml''
      = (Data_zero, False)"
    using t [where m = two_record_Manifest and url_Parse = "\<lambda>p. Inl (lib_error ''parse'')"
         and p = "''a.xhtml''"] by simp
  from 1 2 3 4 show ?thesis by blast
qed

section \<open>Writing a container and opening it again\<close>

lemma run_calls_ReadingOrder:
  "ReadingOrder (manifest (run_calls S writer cs))
     = links_after S (ReadingOrder (manifest writer)) cs"
proof (induction cs arbitrary: writer)
  case Nil
  then show ?case by (simp add: run_calls_def)
next
  case (Cons c cs)
  have step: "run_calls S writer (c # cs) = run_calls S (apply_call S writer c) cs"
    by (simp add: run_calls_def)
  show ?case
    unfolding step Cons.IH
    by (cases c) (simp_all add: RWPPWriter_NewFile_def RWPPWriter_MarkAsEncrypted_def
        zip_CreateHeader_def)
qed

lemma links_after_Href:
  "map Href (links_after S ro cs) = map Href ro @ NewFile_paths cs"
  by (induction S ro cs rule: links_after.induct) (simp_all add: MarkAsEncrypted_loop_Href)


lemma links_after_encrypted:
  "map link_isEncrypted (links_after S ro cs)
     = present_links_encrypted [] ro (MarkAsEncrypted_paths cs)
         @ first_and_marked_later (map Href ro) cs"
proof (induction S ro cs rule: links_after.induct)
  case (1 S ro)
  then show ?case by (simp add: present_links_encrypted_none)
next
  case (2 S ro path ctype storageMethod cs)
  have "first_and_marked_later (map Href (ro @ [\<lparr>Href = path, Type = ctype, Properties = None\<rparr>])) cs
      = first_and_marked_later (path # map Href ro) cs"
    by (rule first_and_marked_later_cong) auto
  with 2 show ?case
    by (simp add: present_links_encrypted_append link_isEncrypted_def)
next
  case (3 S ro path originalSize profile algorithm cs)
  then show ?case
    by (simp add: present_links_encrypted_mark MarkAsEncrypted_loop_Href)
qed

lemma NewRWPPReader_loop_last:
  "ManifestLocation \<notin> Name ` set fs \<Longrightarrow> Name f = ManifestLocation \<Longrightarrow> Open f = Inr body
     \<Longrightarrow> NewRWPPReader_loop json_Decode (fs @ [f])
         = (case json_Decode body of Inl err \<Rightarrow> Inl err | Inr m \<Rightarrow> Inr (Some m))"
  by (induction fs) auto

lemma run_calls_dir_names:
  "map (\<lambda>e. Name (fst e)) (dir (zipWriter (run_calls S writer cs)))
     = map (\<lambda>e. Name (fst e)) (dir (zipWriter writer)) @ NewFile_paths cs"
proof (induction cs arbitrary: writer)
  case Nil
  then show ?case by (simp add: run_calls_def)
next
  case (Cons c cs)
  have step: "run_calls S writer (c # cs) = run_calls S (apply_call S writer c) cs"
    by (simp add: run_calls_def)
  show ?case
    unfolding step Cons.IH
    by (cases c) (simp_all add: RWPPWriter_NewFile_def RWPPWriter_MarkAsEncrypted_def
        zip_CreateHeader_def)
qed

lemma Close_succeeds:
  assumes "json_Encode (manifest writer) = Inr bs"
  shows "RWPPWriter_Close json_Encode None None writer =
     (None, writer\<lparr>zipWriter :=
        \<lparr>dir = dir (zipWriter writer) @ [(\<lparr>Name = ManifestLocation, Method = 8\<rparr>, bs)],
         closed = True,
         calls = calls (zipWriter writer) @ [CallCreateHeader ManifestLocation, CallClose]\<rparr>\<rparr>)"
  using assms
  by (simp add: RWPPWriter_Close_def RWPPWriter_writeManifest_def zip_Create_def
      zip_CreateHeader_def zip_Close_def zip_Write_def)

lemma reopen_after_Close:
  assumes enc: "json_Encode (manifest writer) = Inr bs"
    and dec: "json_Decode bs = Inr m"
    and absent: "ManifestLocation \<notin> (\<lambda>e. Name (fst e)) ` set (dir (zipWriter writer))"
  shows "\<exists>reader. NewRWPPReader json_Decode
           (zip_reopen (zipWriter (snd (RWPPWriter_Close json_Encode None None writer))))
         = Inr reader \<and> reader_manifest reader = m"
proof -
  let ?fs = "map (\<lambda>(fh, body). \<lparr>Name = Name fh, Method = Method fh, Open = Inr body\<rparr>)
               (dir (zipWriter writer))"
  let ?f = "\<lparr>Name = ManifestLocation, Method = 8, Open = Inr bs\<rparr>"
  have files: "File (zip_reopen (zipWriter (snd (RWPPWriter_Close json_Encode None None writer))))
      = ?fs @ [?f]"
    by (simp add: Close_succeeds [where json_Encode = json_Encode, OF enc] zip_reopen_def)
  have "ManifestLocation \<notin> Name ` set ?fs"
    using absent by (auto simp: image_iff split: prod.splits)
  then have "NewRWPPReader_loop json_Decode (?fs @ [?f]) = Inr (Some m)"
    by (simp add: NewRWPPReader_loop_last [where body = bs] dec)
  then show ?thesis
    by (simp add: NewRWPPReader_def files)
qed

text \<open>
  C1, as the code has it. Take a writer whose reading order is empty and whose archive
  has no entry named \<open>manifest.json\<close>, any list of successful \<open>NewFile\<close> calls, none for
  the path \<open>manifest.json\<close>, mixed with \<open>MarkAsEncrypted\<close> calls, then \<open>Close\<close>, with a
  JSON decoder that gives back the manifest that was encoded. Opening the result again
  gives a reading order whose hrefs are the \<open>NewFile\<close> paths in call order, and a link
  carries an encryption record exactly when its \<open>NewFile\<close> call was the first for its
  path and a later call was \<open>MarkAsEncrypted\<close> with that path.
\<close>

theorem reopened_reading_order_follows_calls:
  assumes "ReadingOrder (manifest writer) = []"
    and "\<forall>e \<in> set (dir (zipWriter writer)). Name (fst e) \<noteq> ''manifest.json''"
    and "''manifest.json'' \<notin> set (NewFile_paths cs)"
    and "json_Encode (manifest (run_calls profile_String writer cs)) = Inr bs"
    and "json_Decode bs = Inr (manifest (run_calls profile_String writer cs))"
  shows "\<exists>ro. reopened_ReadingOrder
                (build_and_reopen profile_String json_Encode json_Decode writer cs) = Some ro
            \<and> map Href ro = NewFile_paths cs
            \<and> map link_isEncrypted ro = first_and_marked_later [] cs"
proof -
  let ?w = "run_calls profile_String writer cs"
  have "set (map (\<lambda>e. Name (fst e)) (dir (zipWriter ?w)))
      = (\<lambda>e. Name (fst e)) ` set (dir (zipWriter writer)) \<union> set (NewFile_paths cs)"
    by (simp add: run_calls_dir_names)
  then have absent: "ManifestLocation \<notin> (\<lambda>e. Name (fst e)) ` set (dir (zipWriter ?w))"
    using assms(2,3) by (auto simp: ManifestLocation_def)
  from reopen_after_Close [where json_Encode = json_Encode and json_Decode = json_Decode,
      OF assms(4) assms(5) absent]
  obtain reader where reader: "NewRWPPReader json_Decode
           (zip_reopen (zipWriter (snd (RWPPWriter_Close json_Encode None None ?w)))) = Inr reader"
    and m: "reader_manifest reader = manifest ?w" by blast
  have "build_and_reopen profile_String json_Encode json_Decode writer cs = Inr reader"
    using reader by (simp add: build_and_reopen_def Close_succeeds [where json_Encode = json_Encode, OF assms(4)])
  then have ro: "reopened_ReadingOrder
       (build_and_reopen profile_String json_Encode json_Decode writer cs)
       = Some (links_after profile_String [] cs)"
    by (simp add: reopened_ReadingOrder_def m run_calls_ReadingOrder assms(1))
  show ?thesis
    unfolding ro using links_after_Href [of profile_String "[]" cs]
      links_after_encrypted [of profile_String "[]" cs]
    by simp
qed

lemmas eval_defs = build_and_reopen_def run_calls_def RWPPWriter_Close_def
  RWPPWriter_writeManifest_def RWPPWriter_NewFile_def RWPPWriter_MarkAsEncrypted_def
  zip_Create_def zip_CreateHeader_def zip_Close_def zip_Write_def zip_reopen_def
  NewRWPPReader_def reopened_ReadingOrder_def whole_json_Encode_def fresh_writer_def
  ManifestLocation_def set_Encrypted_def new_Properties_def LCP_Scheme_def
  link_isEncrypted_def

text \<open>
  C1 as stated fails on each count. After two \<open>NewFile\<close> calls for one path and a
  \<open>MarkAsEncrypted\<close> for it, the second link has no encryption record. After
  \<open>MarkAsEncrypted\<close> and then \<open>NewFile\<close> for one path, the link has no encryption
  record. After a \<open>NewFile\<close> for the path \<open>manifest.json\<close>, opening the result reads
  that entry, not the manifest written by \<open>Close\<close>, and fails.
\<close>

theorem reopened_reading_order_follows_calls_counterexample:
  "reopened_ReadingOrder
     (build_and_reopen id whole_json_Encode whole_json_Decode fresh_writer duplicate_path_calls)
     = Some [\<lparr>Href = ''a.html'', Type = ''text/html'', Properties = Some \<lparr>Encrypted = Some
               \<lparr>Scheme = ''http://readium.org/2014/01/lcp'', Profile = ''basic'',
                Algorithm = ''AES-CBC''\<rparr>\<rparr>\<rparr>,
             \<lparr>Href = ''a.html'', Type = ''text/html'', Properties = None\<rparr>]
 \<and> ''a.html'' \<in> set (MarkAsEncrypted_paths duplicate_path_calls)
 \<and> \<not> link_isEncrypted \<lparr>Href = ''a.html'', Type = ''text/html'', Properties = None\<rparr>
 \<and> reopened_ReadingOrder
     (build_and_reopen id whole_json_Encode whole_json_Decode fresh_writer mark_first_calls)
     = Some [\<lparr>Href = ''a.html'', Type = ''text/html'', Properties = None\<rparr>]
 \<and> ''a.html'' \<in> set (MarkAsEncrypted_paths mark_first_calls)
 \<and> reopened_ReadingOrder
     (build_and_reopen id whole_json_Encode whole_json_Decode fresh_writer manifest_path_calls)
     = None
 \<and> NewFile_paths manifest_path_calls = [''manifest.json'']"
  by (simp add: eval_defs duplicate_path_calls_def mark_first_calls_def manifest_path_calls_def)

theorem reopened_reading_order_follows_calls_witness:
  "reopened_ReadingOrder
     (build_and_reopen id whole_json_Encode whole_json_Decode fresh_writer scenario_calls) \<noteq> None
 \<and> map Href (the (reopened_ReadingOrder
     (build_and_reopen id whole_json_Encode whole_json_Decode fresh_writer scenario_calls)))
     = [''a.html'', ''b.html'']
 \<and> map link_isEncrypted (the (reopened_ReadingOrder
     (build_and_reopen id whole_json_Encode whole_json_Decode fresh_writer scenario_calls)))
     = [True, False]"
proof -
  have 1: "ReadingOrder (manifest fresh_writer) = []" by (simp add: fresh_writer_def)
  have 2: "\<forall>e \<in> set (dir (zipWriter fresh_writer)). Name (fst e) \<noteq> ''manifest.json''"
    by (simp add: fresh_writer_def)
  have 3: "''manifest.json'' \<notin> set (NewFile_paths scenario_calls)"
    by (simp add: scenario_calls_def)
  have 4: "whole_json_Encode (manifest (run_calls id fresh_writer scenario_calls))
      = Inr [manifest (run_calls id fresh_writer scenario_calls)]"
    by (simp add: whole_json_Encode_def)
  have 5: "whole_json_Decode [manifest (run_calls id fresh_writer scenario_calls)]
      = Inr (manifest (run_calls id fresh_writer scenario_calls))" by simp
  from reopened_reading_order_follows_calls [where json_Encode = whole_json_Encode
      and json_Decode = whole_json_Decode and profile_String = id, OF 1 2 3 4 5]
  show ?thesis by (auto simp: scenario_calls_def)
qed

end
